theory Spec2Isabelle
  imports Main "HOL-Library.Word"
begin

unbundle bit_operations_syntax

section \<open>The C execution model\<close>

text \<open>
  \<^verbatim>\<open>library/aes_alt.c\<close> defines one C function. A C function runs against the
  process memory, and what it can do besides returning a value (writing memory, logging,
  allocating, dereferencing a bad pointer, aborting) is made explicit here: a call takes
  the world before it and yields either a fault or the returned value with the world
  after it.
\<close>

type_synonym byte = "8 word"

type_synonym addr = nat

text \<open>A pointer value: the null pointer, or an address (which may or may not be allocated).\<close>

datatype ptr = NULL | Ptr addr

text \<open>
  The world a call can observe and change: the allocated bytes of memory (an address
  outside the domain of \<open>heap\<close> is not allocated) and the lines written to the log.
\<close>

record world =
  heap :: "addr \<rightharpoonup> byte"
  logged :: "string list"

text \<open>How a C call can fail to return: undefined behaviour, or \<^verbatim>\<open>abort()\<close>/\<^verbatim>\<open>exit()\<close>.\<close>

datatype fault = Undefined_Behaviour | Process_Abort

type_synonym 'a prog = "world \<Rightarrow> fault + ('a \<times> world)"

text \<open>\<^verbatim>\<open>return v;\<close>\<close>

definition return_c :: "'a \<Rightarrow> 'a prog" where
  "return_c v w = Inr (v, w)"

text \<open>\<^verbatim>\<open>s1; s2\<close>: the second statement runs in the world the first one left, unless it faulted.\<close>

definition seq :: "unit prog \<Rightarrow> 'a prog \<Rightarrow> 'a prog" where
  "seq p q w = (case p w of Inl f \<Rightarrow> Inl f | Inr (u, w') \<Rightarrow> q w')"

text \<open>
  \<^verbatim>\<open>(void) e;\<close> for a variable \<open>e\<close>: the value of the variable is read and discarded.
  Reading a pointer variable does not access the memory it points to.
\<close>

definition void_cast :: "'a \<Rightarrow> unit prog" where
  "void_cast v = return_c ()"

text \<open>
  \<^verbatim>\<open>*p\<close> as an rvalue, and \<^verbatim>\<open>*p = v\<close>. These are the operations that are undefined on a
  null or unallocated pointer. The function under study uses neither; they fix what
  ``dereferencing'' means in this model.
\<close>

definition load_byte :: "ptr \<Rightarrow> byte prog" where
  "load_byte p w =
     (case p of
        NULL \<Rightarrow> Inl Undefined_Behaviour
      | Ptr a \<Rightarrow> (case heap w a of None \<Rightarrow> Inl Undefined_Behaviour | Some b \<Rightarrow> Inr (b, w)))"

definition store_byte :: "ptr \<Rightarrow> byte \<Rightarrow> unit prog" where
  "store_byte p v w =
     (case p of
        NULL \<Rightarrow> Inl Undefined_Behaviour
      | Ptr a \<Rightarrow> (case heap w a of
                   None \<Rightarrow> Inl Undefined_Behaviour
                 | Some b \<Rightarrow> Inr ((), w\<lparr>heap := (heap w)(a \<mapsto> v)\<rparr>)))"

text \<open>
  The \<open>n\<close> bytes a pointer points to, as an observer sees them (\<open>None\<close> for a byte that is
  not allocated; nothing for the null pointer).
\<close>

definition contents :: "ptr \<Rightarrow> nat \<Rightarrow> world \<Rightarrow> byte option list" where
  "contents p n w = (case p of NULL \<Rightarrow> [] | Ptr a \<Rightarrow> map (\<lambda>i. heap w (a + i)) [0..<n])"

section \<open>The alternative decrypt stub\<close>

text \<open>
  \<^verbatim>\<open>
  int mbedtls_internal_aes_decrypt(mbedtls_aes_context *ctx,
                                   const unsigned char input[16],
                                   unsigned char output[16])
  {
      (void) ctx;
      (void) input;
      (void) output;

      return MBEDTLS_ERR_PLATFORM_FEATURE_UNSUPPORTED;
  }
  \<close>
  The macro \<^verbatim>\<open>MBEDTLS_ERR_PLATFORM_FEATURE_UNSUPPORTED\<close> comes from a header that is not part
  of the sources at hand, so its value is the first parameter of the model. The C return
  type \<^verbatim>\<open>int\<close> is a 32-bit word, read as two's complement by \<open>sint\<close>; \<open>0\<close> is the
  library's success code.
\<close>

type_synonym c_int = "32 word"

definition mbedtls_internal_aes_decrypt :: "c_int \<Rightarrow> ptr \<Rightarrow> ptr \<Rightarrow> ptr \<Rightarrow> c_int prog" where
  "mbedtls_internal_aes_decrypt MBEDTLS_ERR_PLATFORM_FEATURE_UNSUPPORTED ctx input output =
     seq (void_cast ctx)
    (seq (void_cast input)
    (seq (void_cast output)
    (return_c MBEDTLS_ERR_PLATFORM_FEATURE_UNSUPPORTED)))"

text \<open>
  What a caller gets out of a call: the return code together with the 16 bytes of the
  output buffer after the call.
\<close>

definition call_result :: "ptr \<Rightarrow> c_int prog \<Rightarrow> world \<Rightarrow> fault + (c_int \<times> byte option list)" where
  "call_result output p w =
     (case p w of Inl f \<Rightarrow> Inl f | Inr (r, w') \<Rightarrow> Inr (r, contents output 16 w'))"

text \<open>The world a call leaves behind, and the code it returns, when it returns at all.\<close>

definition world_after :: "'a prog \<Rightarrow> world \<Rightarrow> world option" where
  "world_after p w = (case p w of Inl f \<Rightarrow> None | Inr (r, w') \<Rightarrow> Some w')"

definition return_code :: "'a prog \<Rightarrow> world \<Rightarrow> 'a option" where
  "return_code p w = (case p w of Inl f \<Rightarrow> None | Inr (r, w') \<Rightarrow> Some r)"

text \<open>
  Two worlds for trying the stub: 4096 allocated bytes, an output block at address 0, an
  input block at 16 and a context from 32 on, so that the output block lies outside the
  context whatever the size of a context is. The two worlds differ only in the 16 bytes the
  output block holds before the call.
\<close>

definition world_zero :: world where
  "world_zero = \<lparr>heap = (\<lambda>a. if a < 4096 then Some 0 else None), logged = []\<rparr>"

definition world_ff :: world where
  "world_ff = \<lparr>heap = (\<lambda>a. if a < 16 then Some 255 else if a < 4096 then Some 0 else None),
               logged = []\<rparr>"

text \<open>A world with no memory allocated at all.\<close>

definition world_empty :: world where
  "world_empty = \<lparr>heap = Map.empty, logged = []\<rparr>"

section \<open>Build-time selection of the decrypt backend\<close>










section \<open>The reference backend\<close>

text \<open>
  The reference implementation of the block transform (\<^verbatim>\<open>library/aes.c\<close>) is missing from the
  sources at hand, and so is the key expansion. The spec fixes what the reference backend
  computes: its output is ``the unique AES block cipher transform of input under the key
  material encoded in context, for the given direction, bit-exact with the standard
  algorithm's defined output'', the standard being FIPS-197, whose test vector the spec
  quotes. Every definition of this section is therefore modelled from the spec, as the
  algorithm of FIPS-197: Cipher, InvCipher and KeyExpansion with their transformations.
\<close>

subsection \<open>Blocks and key schedule contexts\<close>

text \<open>
  Modelled from the spec: ``Block Buffer: exactly 16 bytes, fixed size''. A block is four
  columns of four bytes; the bytes of a 16-byte buffer fill it in order, column by column
  (FIPS-197, 3.4), so \<open>Block (Column b0 b1 b2 b3) (Column b4 \<dots>) \<dots>\<close> is the buffer
  \<open>b0 b1 b2 b3 b4 \<dots> b15\<close>. A column is also the 4-byte word of the key schedule.
\<close>

datatype column = Column byte byte byte byte

datatype block = Block column column column column

text \<open>
  Modelled from the spec: the ``key-length discriminant (128/192/256-bit variants)'' of a
  context, with the number of 4-byte key words \<open>Nk\<close> and of rounds \<open>Nr\<close> that FIPS-197
  assigns to each variant.
\<close>

datatype key_length = AES_128 | AES_192 | AES_256

fun key_words :: "key_length \<Rightarrow> nat" where
  "key_words AES_128 = 4"
| "key_words AES_192 = 6"
| "key_words AES_256 = 8"

fun rounds :: "key_length \<Rightarrow> nat" where
  "rounds AES_128 = 10"
| "rounds AES_192 = 12"
| "rounds AES_256 = 14"

text \<open>
  Modelled from the spec: ``Key Schedule Context: opaque, fixed-size record containing
  expanded round-key words and a key-length discriminant''. A context is valid when it holds
  the \<open>4 * (Nr + 1)\<close> round-key words of its variant.
\<close>

record key_schedule_context =
  variant :: key_length
  round_key_words :: "column list"

definition valid_context :: "key_schedule_context \<Rightarrow> bool" where
  "valid_context ctx = (length (round_key_words ctx) = 4 * (rounds (variant ctx) + 1))"

subsection \<open>The S-box and multiplication in the field\<close>

text \<open>Modelled from the spec: the S-box of FIPS-197 (its Figure 7), as a table of 256 bytes.\<close>

definition sbox_table :: "byte list" where
  "sbox_table =
    [0x63, 0x7c, 0x77, 0x7b, 0xf2, 0x6b, 0x6f, 0xc5, 0x30, 0x01, 0x67, 0x2b, 0xfe, 0xd7, 0xab, 0x76,
     0xca, 0x82, 0xc9, 0x7d, 0xfa, 0x59, 0x47, 0xf0, 0xad, 0xd4, 0xa2, 0xaf, 0x9c, 0xa4, 0x72, 0xc0,
     0xb7, 0xfd, 0x93, 0x26, 0x36, 0x3f, 0xf7, 0xcc, 0x34, 0xa5, 0xe5, 0xf1, 0x71, 0xd8, 0x31, 0x15,
     0x04, 0xc7, 0x23, 0xc3, 0x18, 0x96, 0x05, 0x9a, 0x07, 0x12, 0x80, 0xe2, 0xeb, 0x27, 0xb2, 0x75,
     0x09, 0x83, 0x2c, 0x1a, 0x1b, 0x6e, 0x5a, 0xa0, 0x52, 0x3b, 0xd6, 0xb3, 0x29, 0xe3, 0x2f, 0x84,
     0x53, 0xd1, 0x00, 0xed, 0x20, 0xfc, 0xb1, 0x5b, 0x6a, 0xcb, 0xbe, 0x39, 0x4a, 0x4c, 0x58, 0xcf,
     0xd0, 0xef, 0xaa, 0xfb, 0x43, 0x4d, 0x33, 0x85, 0x45, 0xf9, 0x02, 0x7f, 0x50, 0x3c, 0x9f, 0xa8,
     0x51, 0xa3, 0x40, 0x8f, 0x92, 0x9d, 0x38, 0xf5, 0xbc, 0xb6, 0xda, 0x21, 0x10, 0xff, 0xf3, 0xd2,
     0xcd, 0x0c, 0x13, 0xec, 0x5f, 0x97, 0x44, 0x17, 0xc4, 0xa7, 0x7e, 0x3d, 0x64, 0x5d, 0x19, 0x73,
     0x60, 0x81, 0x4f, 0xdc, 0x22, 0x2a, 0x90, 0x88, 0x46, 0xee, 0xb8, 0x14, 0xde, 0x5e, 0x0b, 0xdb,
     0xe0, 0x32, 0x3a, 0x0a, 0x49, 0x06, 0x24, 0x5c, 0xc2, 0xd3, 0xac, 0x62, 0x91, 0x95, 0xe4, 0x79,
     0xe7, 0xc8, 0x37, 0x6d, 0x8d, 0xd5, 0x4e, 0xa9, 0x6c, 0x56, 0xf4, 0xea, 0x65, 0x7a, 0xae, 0x08,
     0xba, 0x78, 0x25, 0x2e, 0x1c, 0xa6, 0xb4, 0xc6, 0xe8, 0xdd, 0x74, 0x1f, 0x4b, 0xbd, 0x8b, 0x8a,
     0x70, 0x3e, 0xb5, 0x66, 0x48, 0x03, 0xf6, 0x0e, 0x61, 0x35, 0x57, 0xb9, 0x86, 0xc1, 0x1d, 0x9e,
     0xe1, 0xf8, 0x98, 0x11, 0x69, 0xd9, 0x8e, 0x94, 0x9b, 0x1e, 0x87, 0xe9, 0xce, 0x55, 0x28, 0xdf,
     0x8c, 0xa1, 0x89, 0x0d, 0xbf, 0xe6, 0x42, 0x68, 0x41, 0x99, 0x2d, 0x0f, 0xb0, 0x54, 0xbb, 0x16]"

text \<open>Modelled from the spec: the inverse S-box of FIPS-197 (its Figure 14).\<close>

definition inv_sbox_table :: "byte list" where
  "inv_sbox_table =
    [0x52, 0x09, 0x6a, 0xd5, 0x30, 0x36, 0xa5, 0x38, 0xbf, 0x40, 0xa3, 0x9e, 0x81, 0xf3, 0xd7, 0xfb,
     0x7c, 0xe3, 0x39, 0x82, 0x9b, 0x2f, 0xff, 0x87, 0x34, 0x8e, 0x43, 0x44, 0xc4, 0xde, 0xe9, 0xcb,
     0x54, 0x7b, 0x94, 0x32, 0xa6, 0xc2, 0x23, 0x3d, 0xee, 0x4c, 0x95, 0x0b, 0x42, 0xfa, 0xc3, 0x4e,
     0x08, 0x2e, 0xa1, 0x66, 0x28, 0xd9, 0x24, 0xb2, 0x76, 0x5b, 0xa2, 0x49, 0x6d, 0x8b, 0xd1, 0x25,
     0x72, 0xf8, 0xf6, 0x64, 0x86, 0x68, 0x98, 0x16, 0xd4, 0xa4, 0x5c, 0xcc, 0x5d, 0x65, 0xb6, 0x92,
     0x6c, 0x70, 0x48, 0x50, 0xfd, 0xed, 0xb9, 0xda, 0x5e, 0x15, 0x46, 0x57, 0xa7, 0x8d, 0x9d, 0x84,
     0x90, 0xd8, 0xab, 0x00, 0x8c, 0xbc, 0xd3, 0x0a, 0xf7, 0xe4, 0x58, 0x05, 0xb8, 0xb3, 0x45, 0x06,
     0xd0, 0x2c, 0x1e, 0x8f, 0xca, 0x3f, 0x0f, 0x02, 0xc1, 0xaf, 0xbd, 0x03, 0x01, 0x13, 0x8a, 0x6b,
     0x3a, 0x91, 0x11, 0x41, 0x4f, 0x67, 0xdc, 0xea, 0x97, 0xf2, 0xcf, 0xce, 0xf0, 0xb4, 0xe6, 0x73,
     0x96, 0xac, 0x74, 0x22, 0xe7, 0xad, 0x35, 0x85, 0xe2, 0xf9, 0x37, 0xe8, 0x1c, 0x75, 0xdf, 0x6e,
     0x47, 0xf1, 0x1a, 0x71, 0x1d, 0x29, 0xc5, 0x89, 0x6f, 0xb7, 0x62, 0x0e, 0xaa, 0x18, 0xbe, 0x1b,
     0xfc, 0x56, 0x3e, 0x4b, 0xc6, 0xd2, 0x79, 0x20, 0x9a, 0xdb, 0xc0, 0xfe, 0x78, 0xcd, 0x5a, 0xf4,
     0x1f, 0xdd, 0xa8, 0x33, 0x88, 0x07, 0xc7, 0x31, 0xb1, 0x12, 0x10, 0x59, 0x27, 0x80, 0xec, 0x5f,
     0x60, 0x51, 0x7f, 0xa9, 0x19, 0xb5, 0x4a, 0x0d, 0x2d, 0xe5, 0x7a, 0x9f, 0x93, 0xc9, 0x9c, 0xef,
     0xa0, 0xe0, 0x3b, 0x4d, 0xae, 0x2a, 0xf5, 0xb0, 0xc8, 0xeb, 0xbb, 0x3c, 0x83, 0x53, 0x99, 0x61,
     0x17, 0x2b, 0x04, 0x7e, 0xba, 0x77, 0xd6, 0x26, 0xe1, 0x69, 0x14, 0x63, 0x55, 0x21, 0x0c, 0x7d]"

text \<open>
  Modelled from the spec: the table lookups. The index \<open>unat b\<close> is below 256, the length
  of the tables, for every byte.
\<close>

definition sbox :: "byte \<Rightarrow> byte" where
  "sbox b = sbox_table ! unat b"

definition inv_sbox :: "byte \<Rightarrow> byte" where
  "inv_sbox b = inv_sbox_table ! unat b"

text \<open>
  Modelled from the spec: multiplication by \<open>x\<close> in GF(2^8) modulo
  \<open>x^8 + x^4 + x^3 + x + 1\<close> (FIPS-197, 4.2.1): shift left, and reduce by \<open>0x1b\<close> when
  the top bit was set.
\<close>

definition xtime :: "byte \<Rightarrow> byte" where
  "xtime b = (if bit b 7 then push_bit 1 b XOR 0x1b else push_bit 1 b)"

text \<open>
  Modelled from the spec: multiplication in GF(2^8), by adding up the multiples
  \<open>a\<close>, \<open>xtime a\<close>, \<open>xtime (xtime a)\<close>, \<dots> selected by the eight bits of \<open>b\<close>.
\<close>

fun gf_mul_bits :: "nat \<Rightarrow> byte \<Rightarrow> byte \<Rightarrow> byte" where
  "gf_mul_bits 0 a b = 0"
| "gf_mul_bits (Suc n) a b =
     (if bit b 0 then a else 0) XOR gf_mul_bits n (xtime a) (drop_bit 1 b)"

definition gf_mul :: "byte \<Rightarrow> byte \<Rightarrow> byte" where
  "gf_mul a b = gf_mul_bits 8 a b"

subsection \<open>The transformations of the cipher and their inverses\<close>

text \<open>Modelled from the spec: SubWord, RotWord and the exclusive-or of two words (FIPS-197, 5.2).\<close>

fun sub_word :: "column \<Rightarrow> column" where
  "sub_word (Column a0 a1 a2 a3) = Column (sbox a0) (sbox a1) (sbox a2) (sbox a3)"

fun inv_sub_word :: "column \<Rightarrow> column" where
  "inv_sub_word (Column a0 a1 a2 a3) =
     Column (inv_sbox a0) (inv_sbox a1) (inv_sbox a2) (inv_sbox a3)"

fun rot_word :: "column \<Rightarrow> column" where
  "rot_word (Column a0 a1 a2 a3) = Column a1 a2 a3 a0"

fun xor_word :: "column \<Rightarrow> column \<Rightarrow> column" where
  "xor_word (Column a0 a1 a2 a3) (Column b0 b1 b2 b3) =
     Column (a0 XOR b0) (a1 XOR b1) (a2 XOR b2) (a3 XOR b3)"

text \<open>Modelled from the spec: SubBytes and InvSubBytes (FIPS-197, 5.1.1 and 5.3.2).\<close>

fun sub_bytes :: "block \<Rightarrow> block" where
  "sub_bytes (Block c0 c1 c2 c3) = Block (sub_word c0) (sub_word c1) (sub_word c2) (sub_word c3)"

fun inv_sub_bytes :: "block \<Rightarrow> block" where
  "inv_sub_bytes (Block c0 c1 c2 c3) =
     Block (inv_sub_word c0) (inv_sub_word c1) (inv_sub_word c2) (inv_sub_word c3)"

text \<open>
  Modelled from the spec: ShiftRows and InvShiftRows (FIPS-197, 5.1.2 and 5.3.1). With
  \<open>srk\<close> the byte in row \<open>r\<close> of column \<open>k\<close>, row \<open>r\<close> is rotated left by \<open>r\<close> columns,
  respectively right.
\<close>

fun shift_rows :: "block \<Rightarrow> block" where
  "shift_rows (Block (Column s00 s10 s20 s30) (Column s01 s11 s21 s31)
                     (Column s02 s12 s22 s32) (Column s03 s13 s23 s33)) =
     Block (Column s00 s11 s22 s33) (Column s01 s12 s23 s30)
           (Column s02 s13 s20 s31) (Column s03 s10 s21 s32)"

fun inv_shift_rows :: "block \<Rightarrow> block" where
  "inv_shift_rows (Block (Column s00 s10 s20 s30) (Column s01 s11 s21 s31)
                         (Column s02 s12 s22 s32) (Column s03 s13 s23 s33)) =
     Block (Column s00 s13 s22 s31) (Column s01 s10 s23 s32)
           (Column s02 s11 s20 s33) (Column s03 s12 s21 s30)"

text \<open>
  Modelled from the spec: MixColumns and InvMixColumns (FIPS-197, 5.1.3 and 5.3.3): each
  column is multiplied by the matrix with rows \<open>02 03 01 01\<close>, \<open>01 02 03 01\<close>,
  \<open>01 01 02 03\<close>, \<open>03 01 01 02\<close>, respectively \<open>0e 0b 0d 09\<close>, \<open>09 0e 0b 0d\<close>,
  \<open>0d 09 0e 0b\<close>, \<open>0b 0d 09 0e\<close>.
\<close>

fun mix_column :: "column \<Rightarrow> column" where
  "mix_column (Column a0 a1 a2 a3) =
     Column (gf_mul a0 0x02 XOR gf_mul a1 0x03 XOR a2 XOR a3)
            (a0 XOR gf_mul a1 0x02 XOR gf_mul a2 0x03 XOR a3)
            (a0 XOR a1 XOR gf_mul a2 0x02 XOR gf_mul a3 0x03)
            (gf_mul a0 0x03 XOR a1 XOR a2 XOR gf_mul a3 0x02)"

fun inv_mix_column :: "column \<Rightarrow> column" where
  "inv_mix_column (Column a0 a1 a2 a3) =
     Column (gf_mul a0 0x0e XOR gf_mul a1 0x0b XOR gf_mul a2 0x0d XOR gf_mul a3 0x09)
            (gf_mul a0 0x09 XOR gf_mul a1 0x0e XOR gf_mul a2 0x0b XOR gf_mul a3 0x0d)
            (gf_mul a0 0x0d XOR gf_mul a1 0x09 XOR gf_mul a2 0x0e XOR gf_mul a3 0x0b)
            (gf_mul a0 0x0b XOR gf_mul a1 0x0d XOR gf_mul a2 0x09 XOR gf_mul a3 0x0e)"

fun mix_columns :: "block \<Rightarrow> block" where
  "mix_columns (Block c0 c1 c2 c3) =
     Block (mix_column c0) (mix_column c1) (mix_column c2) (mix_column c3)"

fun inv_mix_columns :: "block \<Rightarrow> block" where
  "inv_mix_columns (Block c0 c1 c2 c3) =
     Block (inv_mix_column c0) (inv_mix_column c1) (inv_mix_column c2) (inv_mix_column c3)"

text \<open>Modelled from the spec: AddRoundKey (FIPS-197, 5.1.4), its own inverse.\<close>

fun add_round_key :: "block \<Rightarrow> block \<Rightarrow> block" where
  "add_round_key (Block c0 c1 c2 c3) (Block k0 k1 k2 k3) =
     Block (xor_word c0 k0) (xor_word c1 k1) (xor_word c2 k2) (xor_word c3 k3)"

subsection \<open>Key expansion\<close>

text \<open>
  Modelled from the spec: the round constants \<open>Rcon[j]\<close> for \<open>j = 1, \<dots>, 10\<close>
  (FIPS-197, 5.2); no supported key length asks for more.
\<close>

definition rcon_table :: "byte list" where
  "rcon_table = [0x01, 0x02, 0x04, 0x08, 0x10, 0x20, 0x40, 0x80, 0x1b, 0x36]"

definition rcon :: "nat \<Rightarrow> column" where
  "rcon j = Column (rcon_table ! (j - 1)) 0 0 0"

text \<open>
  Modelled from the spec: one step of KeyExpansion (FIPS-197, 5.2), the word \<open>w[i]\<close> from
  the words \<open>w[0], \<dots>, w[i - 1]\<close>, for \<open>Nk \<le> i\<close>.
\<close>

definition next_word :: "nat \<Rightarrow> column list \<Rightarrow> nat \<Rightarrow> column" where
  "next_word nk w i =
     xor_word (w ! (i - nk))
       (if i mod nk = 0 then xor_word (sub_word (rot_word (w ! (i - 1)))) (rcon (i div nk))
        else if 6 < nk \<and> i mod nk = 4 then sub_word (w ! (i - 1))
        else w ! (i - 1))"

text \<open>
  Modelled from the spec: the loop of KeyExpansion, for \<open>i\<close> from \<open>Nk\<close> up to
  \<open>4 * (Nr + 1) - 1\<close>, starting from the \<open>Nk\<close> words of the key.
\<close>

definition expand_words :: "nat \<Rightarrow> nat \<Rightarrow> column list \<Rightarrow> column list" where
  "expand_words nk nr key = foldl (\<lambda>w i. w @ [next_word nk w i]) key [nk..<4 * (nr + 1)]"

text \<open>
  Modelled from the spec: the key expansion that produces a context (an external
  collaborator in the spec). A key is a list of 4, 6 or 8 words; any other length is not a
  supported key length and gives no context.
\<close>

definition key_variant :: "column list \<Rightarrow> key_length option" where
  "key_variant key =
     (if length key = 4 then Some AES_128
      else if length key = 6 then Some AES_192
      else if length key = 8 then Some AES_256
      else None)"

definition key_expansion :: "column list \<Rightarrow> key_schedule_context option" where
  "key_expansion key =
     (case key_variant key of
        None \<Rightarrow> None
      | Some v \<Rightarrow>
          Some \<lparr>variant = v, round_key_words = expand_words (key_words v) (rounds v) key\<rparr>)"

subsection \<open>Cipher and inverse cipher\<close>

text \<open>Modelled from the spec: the round key of round \<open>r\<close>, the words \<open>w[4r], \<dots>, w[4r + 3]\<close>.\<close>

definition round_key :: "column list \<Rightarrow> nat \<Rightarrow> block" where
  "round_key w r = Block (w ! (4 * r)) (w ! (4 * r + 1)) (w ! (4 * r + 2)) (w ! (4 * r + 3))"

text \<open>
  Modelled from the spec: Cipher (FIPS-197, 5.1): the initial round key, rounds
  \<open>1, \<dots>, Nr - 1\<close>, and the final round without MixColumns.
\<close>

definition cipher_round :: "column list \<Rightarrow> block \<Rightarrow> nat \<Rightarrow> block" where
  "cipher_round w s r = add_round_key (mix_columns (shift_rows (sub_bytes s))) (round_key w r)"

definition cipher :: "nat \<Rightarrow> column list \<Rightarrow> block \<Rightarrow> block" where
  "cipher nr w inp =
     (let s0 = add_round_key inp (round_key w 0);
          s1 = foldl (cipher_round w) s0 [1..<nr]
      in add_round_key (shift_rows (sub_bytes s1)) (round_key w nr))"

text \<open>
  Modelled from the spec: InvCipher (FIPS-197, 5.3): the last round key, rounds
  \<open>Nr - 1\<close> down to \<open>1\<close>, and the final round without InvMixColumns.
\<close>

definition inv_cipher_round :: "column list \<Rightarrow> block \<Rightarrow> nat \<Rightarrow> block" where
  "inv_cipher_round w s r =
     inv_mix_columns (add_round_key (inv_sub_bytes (inv_shift_rows s)) (round_key w r))"

definition inv_cipher :: "nat \<Rightarrow> column list \<Rightarrow> block \<Rightarrow> block" where
  "inv_cipher nr w inp =
     (let s0 = add_round_key inp (round_key w nr);
          s1 = foldl (inv_cipher_round w) s0 (rev [1..<nr])
      in add_round_key (inv_sub_bytes (inv_shift_rows s1)) (round_key w 0))"

text \<open>
  Modelled from the spec: the reference backend's \<open>transform(direction, context, input)\<close>.
  The reference backend performs the operation for every context and block, so the result
  is the transformed block.
\<close>

datatype direction = Encrypt | Decrypt

fun reference_transform :: "direction \<Rightarrow> key_schedule_context \<Rightarrow> block \<Rightarrow> block" where
  "reference_transform Encrypt ctx input =
     cipher (rounds (variant ctx)) (round_key_words ctx) input"
| "reference_transform Decrypt ctx input =
     inv_cipher (rounds (variant ctx)) (round_key_words ctx) input"

subsection \<open>The test vector of FIPS-197\<close>

text \<open>
  The key \<open>000102030405060708090a0b0c0d0e0f\<close>, the plaintext
  \<open>00112233445566778899aabbccddeeff\<close> and the ciphertext
  \<open>69c4e0d86a7b0430d8cdb78070b4c55a\<close> of the spec's first scenario, the 44 words of the
  key schedule of that key, and the context made of them.
\<close>

definition fips_key :: "column list" where
  "fips_key = [Column 0x00 0x01 0x02 0x03, Column 0x04 0x05 0x06 0x07,
               Column 0x08 0x09 0x0a 0x0b, Column 0x0c 0x0d 0x0e 0x0f]"

definition fips_plaintext :: block where
  "fips_plaintext = Block (Column 0x00 0x11 0x22 0x33) (Column 0x44 0x55 0x66 0x77)
                          (Column 0x88 0x99 0xaa 0xbb) (Column 0xcc 0xdd 0xee 0xff)"

definition fips_ciphertext :: block where
  "fips_ciphertext = Block (Column 0x69 0xc4 0xe0 0xd8) (Column 0x6a 0x7b 0x04 0x30)
                           (Column 0xd8 0xcd 0xb7 0x80) (Column 0x70 0xb4 0xc5 0x5a)"

definition fips_schedule :: "column list" where
  "fips_schedule =
     [Column 0x00 0x01 0x02 0x03,
      Column 0x04 0x05 0x06 0x07,
      Column 0x08 0x09 0x0a 0x0b,
      Column 0x0c 0x0d 0x0e 0x0f,
      Column 0xd6 0xaa 0x74 0xfd,
      Column 0xd2 0xaf 0x72 0xfa,
      Column 0xda 0xa6 0x78 0xf1,
      Column 0xd6 0xab 0x76 0xfe,
      Column 0xb6 0x92 0xcf 0x0b,
      Column 0x64 0x3d 0xbd 0xf1,
      Column 0xbe 0x9b 0xc5 0x00,
      Column 0x68 0x30 0xb3 0xfe,
      Column 0xb6 0xff 0x74 0x4e,
      Column 0xd2 0xc2 0xc9 0xbf,
      Column 0x6c 0x59 0x0c 0xbf,
      Column 0x04 0x69 0xbf 0x41,
      Column 0x47 0xf7 0xf7 0xbc,
      Column 0x95 0x35 0x3e 0x03,
      Column 0xf9 0x6c 0x32 0xbc,
      Column 0xfd 0x05 0x8d 0xfd,
      Column 0x3c 0xaa 0xa3 0xe8,
      Column 0xa9 0x9f 0x9d 0xeb,
      Column 0x50 0xf3 0xaf 0x57,
      Column 0xad 0xf6 0x22 0xaa,
      Column 0x5e 0x39 0x0f 0x7d,
      Column 0xf7 0xa6 0x92 0x96,
      Column 0xa7 0x55 0x3d 0xc1,
      Column 0x0a 0xa3 0x1f 0x6b,
      Column 0x14 0xf9 0x70 0x1a,
      Column 0xe3 0x5f 0xe2 0x8c,
      Column 0x44 0x0a 0xdf 0x4d,
      Column 0x4e 0xa9 0xc0 0x26,
      Column 0x47 0x43 0x87 0x35,
      Column 0xa4 0x1c 0x65 0xb9,
      Column 0xe0 0x16 0xba 0xf4,
      Column 0xae 0xbf 0x7a 0xd2,
      Column 0x54 0x99 0x32 0xd1,
      Column 0xf0 0x85 0x57 0x68,
      Column 0x10 0x93 0xed 0x9c,
      Column 0xbe 0x2c 0x97 0x4e,
      Column 0x13 0x11 0x1d 0x7f,
      Column 0xe3 0x94 0x4a 0x17,
      Column 0xf3 0x07 0xa7 0x8b,
      Column 0x4d 0x2b 0x30 0xc5]"

definition fips_context :: key_schedule_context where
  "fips_context = \<lparr>variant = AES_128, round_key_words = fips_schedule\<rparr>"

text \<open>Contexts of the two longer variants, with all round-key words zero.\<close>

definition zero_context_192 :: key_schedule_context where
  "zero_context_192 = \<lparr>variant = AES_192, round_key_words = replicate 52 (Column 0 0 0 0)\<rparr>"

definition zero_context_256 :: key_schedule_context where
  "zero_context_256 = \<lparr>variant = AES_256, round_key_words = replicate 60 (Column 0 0 0 0)\<rparr>"

section \<open>Basic facts about the execution model\<close>

lemma stub_run:
  "mbedtls_internal_aes_decrypt e ctx input output w = Inr (e, w)"
  by (simp add: mbedtls_internal_aes_decrypt_def seq_def void_cast_def return_c_def)

section \<open>Facts about the reference backend\<close>

subsection \<open>Each transformation is undone by its inverse\<close>

lemma upt_1_numeral:
  "[Suc 0..<numeral n] = (if Suc 0 < numeral n then Suc 0 # [2..<numeral n] else [])"
  by (subst upt_rec) (simp add: numeral_2_eq_2)

lemma upt_0_numeral: "[0..<numeral n] = 0 # [Suc 0..<numeral n]"
  by (subst upt_rec) simp

text \<open>The inverse table undoes the table, checked entry by entry.\<close>

lemma inv_sbox_table_sbox_table:
  "list_all (\<lambda>n. inv_sbox_table ! unat (sbox_table ! n) = of_nat n) [0..<256]"
  by (simp add: upt_0_numeral upt_1_numeral sbox_table_def inv_sbox_table_def)

lemma inv_sbox_sbox: "inv_sbox (sbox b) = b"
proof -
  have "unat b < 256"
    using unsigned_less [of b] by simp
  then have "unat b \<in> set [0..<256]"
    by simp
  with inv_sbox_table_sbox_table
  have "inv_sbox_table ! unat (sbox_table ! unat b) = of_nat (unat b)"
    unfolding list_all_iff by blast
  then show ?thesis
    by (simp add: sbox_def inv_sbox_def)
qed

lemma inv_sub_word_sub_word: "inv_sub_word (sub_word c) = c"
  by (cases c) (simp add: inv_sbox_sbox)

lemma inv_sub_bytes_sub_bytes: "inv_sub_bytes (sub_bytes s) = s"
  by (cases s) (simp add: inv_sub_word_sub_word)

lemma inv_shift_rows_shift_rows: "inv_shift_rows (shift_rows s) = s"
  by (cases s rule: shift_rows.cases) simp

lemma xor_word_cancel: "xor_word (xor_word c k) k = c"
  by (cases c; cases k) (simp add: xor.assoc)

lemma add_round_key_cancel: "add_round_key (add_round_key s k) k = s"
  by (cases s; cases k) (simp add: xor_word_cancel)

text \<open>
  The multiplications by the constants of the two matrices, as sums of iterated \<open>xtime\<close>.
\<close>

lemma gf_mul_bits_8:
  "gf_mul_bits 8 a b =
     (if bit b 0 then a else 0) XOR
     ((if bit b 1 then xtime a else 0) XOR
     ((if bit b 2 then xtime (xtime a) else 0) XOR
     ((if bit b 3 then xtime (xtime (xtime a)) else 0) XOR
     ((if bit b 4 then xtime (xtime (xtime (xtime a))) else 0) XOR
     ((if bit b 5 then xtime (xtime (xtime (xtime (xtime a)))) else 0) XOR
     ((if bit b 6 then xtime (xtime (xtime (xtime (xtime (xtime a))))) else 0) XOR
     (if bit b 7 then xtime (xtime (xtime (xtime (xtime (xtime (xtime a)))))) else 0)))))))"
  by (simp add: eval_nat_numeral bit_drop_bit_eq)

lemma gf_mul_consts:
  "gf_mul a 0x02 = xtime a"
  "gf_mul a 0x03 = a XOR xtime a"
  "gf_mul a 0x09 = a XOR xtime (xtime (xtime a))"
  "gf_mul a 0x0b = a XOR (xtime a XOR xtime (xtime (xtime a)))"
  "gf_mul a 0x0d = a XOR (xtime (xtime a) XOR xtime (xtime (xtime a)))"
  "gf_mul a 0x0e = xtime a XOR (xtime (xtime a) XOR xtime (xtime (xtime a)))"
  by (simp_all add: gf_mul_def gf_mul_bits_8)

text \<open>
  \<open>xtime\<close> is linear, so the product of the two matrices can be expanded into a sum of
  terms \<open>xtime (\<dots> (xtime a))\<close>, in which every term but the diagonal \<open>a\<close> occurs an even
  number of times.
\<close>

lemma xtime_xor: "xtime (a XOR b) = xtime a XOR xtime b"
  by (simp add: xtime_def bit_xor_iff ac_simps)

lemma xor_byte_cancel: "a XOR (a XOR b) = (b::byte)"
  by (simp add: xor.assoc [symmetric])

lemma inv_mix_column_mix_column: "inv_mix_column (mix_column c) = c"
  by (cases c) (simp add: gf_mul_consts xtime_xor xor_byte_cancel ac_simps)

lemma inv_mix_columns_mix_columns: "inv_mix_columns (mix_columns s) = s"
  by (cases s) (simp add: inv_mix_column_mix_column)

text \<open>The same facts with the two directions exchanged.\<close>

lemma sbox_table_inv_sbox_table:
  "list_all (\<lambda>n. sbox_table ! unat (inv_sbox_table ! n) = of_nat n) [0..<256]"
  by (simp add: upt_0_numeral upt_1_numeral sbox_table_def inv_sbox_table_def)

lemma sbox_inv_sbox: "sbox (inv_sbox b) = b"
proof -
  have "unat b < 256"
    using unsigned_less [of b] by simp
  then have "unat b \<in> set [0..<256]"
    by simp
  with sbox_table_inv_sbox_table
  have "sbox_table ! unat (inv_sbox_table ! unat b) = of_nat (unat b)"
    unfolding list_all_iff by blast
  then show ?thesis
    by (simp add: sbox_def inv_sbox_def)
qed

lemma sub_word_inv_sub_word: "sub_word (inv_sub_word c) = c"
  by (cases c) (simp add: sbox_inv_sbox)

lemma sub_bytes_inv_sub_bytes: "sub_bytes (inv_sub_bytes s) = s"
  by (cases s) (simp add: sub_word_inv_sub_word)

lemma shift_rows_inv_shift_rows: "shift_rows (inv_shift_rows s) = s"
  by (cases s rule: shift_rows.cases) simp

lemma mix_column_inv_mix_column: "mix_column (inv_mix_column c) = c"
  by (cases c) (simp add: gf_mul_consts xtime_xor xor_byte_cancel ac_simps)

lemma mix_columns_inv_mix_columns: "mix_columns (inv_mix_columns s) = s"
  by (cases s) (simp add: mix_column_inv_mix_column)

subsection \<open>The inverse cipher undoes the cipher\<close>

text \<open>
  The round loops of the two directions are offset against each other: an inverse round
  undoes a round only under the SubBytes and ShiftRows of the round that follows it.
\<close>

lemma inv_round_undoes_round:
  "inv_cipher_round w (shift_rows (sub_bytes (cipher_round w s r))) r = shift_rows (sub_bytes s)"
  by (simp add: inv_cipher_round_def cipher_round_def inv_shift_rows_shift_rows
      inv_sub_bytes_sub_bytes add_round_key_cancel inv_mix_columns_mix_columns)

lemma foldl_undo:
  assumes "\<And>s r. g (t (f s r)) r = t s"
  shows "foldl g (t (foldl f s rs)) (rev rs) = t s"
proof (induction rs arbitrary: s)
  case Nil
  show ?case by simp
next
  case (Cons r rs)
  have "foldl g (t (foldl f s (r # rs))) (rev (r # rs))
          = g (foldl g (t (foldl f (f s r) rs)) (rev rs)) r"
    by simp
  also have "\<dots> = g (t (f s r)) r"
    by (simp only: Cons.IH)
  also have "\<dots> = t s"
    by (rule assms)
  finally show ?case .
qed

lemma inv_cipher_cipher: "inv_cipher nr w (cipher nr w b) = b"
proof -
  let ?s0 = "add_round_key b (round_key w 0)"
  let ?s1 = "foldl (cipher_round w) ?s0 [1..<nr]"
  have "inv_cipher nr w (cipher nr w b)
          = add_round_key
              (inv_sub_bytes (inv_shift_rows
                 (foldl (inv_cipher_round w) (shift_rows (sub_bytes ?s1)) (rev [1..<nr]))))
              (round_key w 0)"
    by (simp add: inv_cipher_def cipher_def Let_def add_round_key_cancel)
  also have "foldl (inv_cipher_round w) (shift_rows (sub_bytes ?s1)) (rev [1..<nr])
          = shift_rows (sub_bytes ?s0)"
    by (rule foldl_undo [where t = "\<lambda>s. shift_rows (sub_bytes s)"])
       (rule inv_round_undoes_round)
  also have "add_round_key (inv_sub_bytes (inv_shift_rows (shift_rows (sub_bytes ?s0))))
               (round_key w 0) = b"
    by (simp add: inv_shift_rows_shift_rows inv_sub_bytes_sub_bytes add_round_key_cancel)
  finally show ?thesis .
qed

text \<open>The cipher undoes the inverse cipher, by the same argument.\<close>

lemma round_undoes_inv_round:
  "cipher_round w (inv_sub_bytes (inv_shift_rows (inv_cipher_round w s r))) r
     = inv_sub_bytes (inv_shift_rows s)"
  by (simp add: inv_cipher_round_def cipher_round_def shift_rows_inv_shift_rows
      sub_bytes_inv_sub_bytes add_round_key_cancel mix_columns_inv_mix_columns)

lemma cipher_inv_cipher: "cipher nr w (inv_cipher nr w b) = b"
proof -
  let ?s0 = "add_round_key b (round_key w nr)"
  let ?s1 = "foldl (inv_cipher_round w) ?s0 (rev [1..<nr])"
  have "cipher nr w (inv_cipher nr w b)
          = add_round_key
              (shift_rows (sub_bytes
                 (foldl (cipher_round w) (inv_sub_bytes (inv_shift_rows ?s1)) [1..<nr])))
              (round_key w nr)"
    by (simp add: inv_cipher_def cipher_def Let_def add_round_key_cancel)
  also have "foldl (cipher_round w) (inv_sub_bytes (inv_shift_rows ?s1)) [1..<nr]
          = inv_sub_bytes (inv_shift_rows ?s0)"
    using foldl_undo [where t = "\<lambda>s. inv_sub_bytes (inv_shift_rows s)"
        and g = "cipher_round w" and f = "inv_cipher_round w" and rs = "rev [1..<nr]"
        and s = ?s0, OF round_undoes_inv_round]
    by simp
  also have "add_round_key (shift_rows (sub_bytes (inv_sub_bytes (inv_shift_rows ?s0))))
               (round_key w nr) = b"
    by (simp add: shift_rows_inv_shift_rows sub_bytes_inv_sub_bytes add_round_key_cancel)
  finally show ?thesis .
qed

subsection \<open>Key expansion yields valid contexts\<close>

lemma length_foldl_snoc:
  "length (foldl (\<lambda>w i. w @ [h w i]) key ixs) = length key + length ixs"
  by (induction ixs arbitrary: key) simp_all

lemma length_expand_words:
  "length (expand_words nk nr key) = length key + (4 * (nr + 1) - nk)"
  by (simp add: expand_words_def length_foldl_snoc)

lemma key_expansion_valid:
  assumes "key_expansion key = Some ctx"
  shows "valid_context ctx"
proof -
  from assms obtain v where v: "key_variant key = Some v"
    and ctx: "ctx = \<lparr>variant = v, round_key_words = expand_words (key_words v) (rounds v) key\<rparr>"
    by (auto simp add: key_expansion_def split: option.splits)
  from v have "length key = key_words v"
    by (auto simp add: key_variant_def split: if_splits)
  then show ?thesis
    by (cases v) (simp_all add: ctx valid_context_def length_expand_words)
qed

lemma key_expansion_supported:
  "length key \<in> {4, 6, 8} \<Longrightarrow> \<exists>ctx. key_expansion key = Some ctx"
  by (auto simp add: key_expansion_def key_variant_def)

subsection \<open>The key schedule of the test key\<close>

lemma fips_key_expansion: "key_expansion fips_key = Some fips_context"
  by (simp add: key_expansion_def key_variant_def fips_context_def expand_words_def next_word_def
      fips_key_def fips_schedule_def rcon_def rcon_table_def sbox_def sbox_table_def)

section \<open>Properties of the stub\<close>

text \<open>
  C1. For every context pointer, every input and output buffer and every world, the call
  returns the value of \<^verbatim>\<open>MBEDTLS_ERR_PLATFORM_FEATURE_UNSUPPORTED\<close> and nothing else; as that
  value is an error code (not 0), the call never returns success.
\<close>

theorem stub_returns_feature_unsupported:
  "(\<exists>w'. mbedtls_internal_aes_decrypt e ctx input output w = Inr (e, w')) \<and>
   (\<forall>r w'. mbedtls_internal_aes_decrypt e ctx input output w = Inr (r, w') \<longrightarrow> r = e) \<and>
   (e \<noteq> 0 \<longrightarrow> (\<forall>w'. mbedtls_internal_aes_decrypt e ctx input output w \<noteq> Inr (0, w')))"
  by (simp add: stub_run)

theorem stub_returns_feature_unsupported_witness:
  "(- 0x72 :: c_int) \<noteq> 0 \<and>
   (\<exists>w'. mbedtls_internal_aes_decrypt (- 0x72) (Ptr 32) (Ptr 16) (Ptr 0) world_zero
            = Inr (- 0x72, w')) \<and>
   (\<forall>w'. mbedtls_internal_aes_decrypt (- 0x72) (Ptr 32) (Ptr 16) (Ptr 0) world_zero
            \<noteq> Inr (0, w'))"
  using stub_returns_feature_unsupported [of "- 0x72" "Ptr 32" "Ptr 16" "Ptr 0" world_zero]
  by simp

text \<open>
  C2. The world after a call is the world before it: the bytes of the context (whatever
  its size \<open>n\<close>), of the input block and of the output block are what they were, the set of
  allocated addresses is the same, and nothing was added to the log.
\<close>

theorem stub_leaves_world_unchanged:
  "world_after (mbedtls_internal_aes_decrypt e ctx input output) w = Some w \<and>
   map_option (contents ctx n)
     (world_after (mbedtls_internal_aes_decrypt e ctx input output) w) = Some (contents ctx n w) \<and>
   map_option (contents input 16)
     (world_after (mbedtls_internal_aes_decrypt e ctx input output) w) = Some (contents input 16 w) \<and>
   map_option (contents output 16)
     (world_after (mbedtls_internal_aes_decrypt e ctx input output) w) = Some (contents output 16 w) \<and>
   map_option (\<lambda>w'. dom (heap w'))
     (world_after (mbedtls_internal_aes_decrypt e ctx input output) w) = Some (dom (heap w)) \<and>
   map_option logged
     (world_after (mbedtls_internal_aes_decrypt e ctx input output) w) = Some (logged w)"
  by (simp add: world_after_def stub_run)

text \<open>
  C3. The call hands the failure value back to its caller: it ends neither in undefined
  behaviour nor in an abort of the process, for any arguments and any world.
\<close>

theorem stub_reports_failure_to_caller:
  "mbedtls_internal_aes_decrypt e ctx input output w \<noteq> Inl Process_Abort \<and>
   mbedtls_internal_aes_decrypt e ctx input output w \<noteq> Inl Undefined_Behaviour \<and>
   return_code (mbedtls_internal_aes_decrypt e ctx input output) w = Some e"
  by (simp add: return_code_def stub_run)

text \<open>
  C4, as stated: two calls with the same context bytes and the same input bytes give the
  same return code and the same output-buffer bytes. This fails for the stub: it writes
  nothing, so the output buffer holds after the call what it held before, and two calls
  that start with different bytes there end with different bytes there. In the two worlds
  below the context at address 32 holds the same bytes whatever its size \<open>n\<close> is, and so
  does the input block at address 16; only the output block at address 0 differs.
\<close>

theorem stub_output_contents_counterexample:
  "(\<forall>n. contents (Ptr 32) n world_zero = contents (Ptr 32) n world_ff) \<and>
   contents (Ptr 16) 16 world_zero = contents (Ptr 16) 16 world_ff \<and>
   call_result (Ptr 0) (mbedtls_internal_aes_decrypt (- 0x72) (Ptr 32) (Ptr 16) (Ptr 0)) world_zero
     \<noteq> call_result (Ptr 0) (mbedtls_internal_aes_decrypt (- 0x72) (Ptr 32) (Ptr 16) (Ptr 0)) world_ff"
proof -
  have ctx: "contents (Ptr 32) n world_zero = contents (Ptr 32) n world_ff" for n
    by (simp add: contents_def world_zero_def world_ff_def)
  have inp: "contents (Ptr 16) 16 world_zero = contents (Ptr 16) 16 world_ff"
    by (simp add: contents_def world_zero_def world_ff_def)
  have "hd (contents (Ptr 0) 16 world_zero) \<noteq> hd (contents (Ptr 0) 16 world_ff)"
    by (simp add: contents_def world_zero_def world_ff_def upt_conv_Cons)
  then have out: "contents (Ptr 0) 16 world_zero \<noteq> contents (Ptr 0) 16 world_ff"
    by auto
  from ctx inp out show ?thesis
    by (simp add: call_result_def stub_run)
qed

text \<open>
  C4, amended: the result of a call (return code and output-buffer bytes) is the macro's
  value together with the bytes the output buffer held before the call, whatever else the
  world holds; so two calls with the same context bytes, the same input bytes and the same
  output-buffer bytes beforehand give the same result.
\<close>

theorem stub_deterministic:
  "call_result output (mbedtls_internal_aes_decrypt e ctx input output) w1
     = Inr (e, contents output 16 w1) \<and>
   (contents ctx n w1 = contents ctx n w2 \<and>
    contents input 16 w1 = contents input 16 w2 \<and>
    contents output 16 w1 = contents output 16 w2 \<longrightarrow>
    call_result output (mbedtls_internal_aes_decrypt e ctx input output) w1
      = call_result output (mbedtls_internal_aes_decrypt e ctx input output) w2)"
  by (simp add: call_result_def stub_run)

theorem stub_deterministic_witness:
  "contents (Ptr 32) 176 world_zero = contents (Ptr 32) 176 (world_zero\<lparr>logged := [''x'']\<rparr>) \<and>
   contents (Ptr 16) 16 world_zero = contents (Ptr 16) 16 (world_zero\<lparr>logged := [''x'']\<rparr>) \<and>
   contents (Ptr 0) 16 world_zero = contents (Ptr 0) 16 (world_zero\<lparr>logged := [''x'']\<rparr>) \<and>
   world_zero \<noteq> world_zero\<lparr>logged := [''x'']\<rparr> \<and>
   call_result (Ptr 0) (mbedtls_internal_aes_decrypt (- 0x72) (Ptr 32) (Ptr 16) (Ptr 0)) world_zero
     = call_result (Ptr 0) (mbedtls_internal_aes_decrypt (- 0x72) (Ptr 32) (Ptr 16) (Ptr 0))
         (world_zero\<lparr>logged := [''x'']\<rparr>)"
proof -
  let ?w2 = "world_zero\<lparr>logged := [''x'']\<rparr>"
  have same: "contents (Ptr 32) 176 world_zero = contents (Ptr 32) 176 ?w2 \<and>
      contents (Ptr 16) 16 world_zero = contents (Ptr 16) 16 ?w2 \<and>
      contents (Ptr 0) 16 world_zero = contents (Ptr 0) 16 ?w2"
    by (simp add: contents_def)
  have differ: "world_zero \<noteq> ?w2"
    by (simp add: world_zero_def)
  from same stub_deterministic [of "Ptr 0" "- 0x72" "Ptr 32" "Ptr 16" world_zero 176 ?w2]
  have "call_result (Ptr 0) (mbedtls_internal_aes_decrypt (- 0x72) (Ptr 32) (Ptr 16) (Ptr 0))
          world_zero
        = call_result (Ptr 0) (mbedtls_internal_aes_decrypt (- 0x72) (Ptr 32) (Ptr 16) (Ptr 0))
          ?w2"
    by blast
  with same differ show ?thesis by blast
qed



text \<open>
  C8. The return code does not depend on the arguments or on the world: any two calls,
  with whatever contexts, input buffers, output buffers and memory contents, return the
  same code.
\<close>

theorem stub_return_code_independent_of_inputs:
  "return_code (mbedtls_internal_aes_decrypt e ctx1 input1 output1) w1
     = return_code (mbedtls_internal_aes_decrypt e ctx2 input2 output2) w2"
  by (simp add: return_code_def stub_run)

text \<open>
  C9. The call never dereferences a pointer: where a load through the null pointer, or
  through a pointer to memory that is not allocated, is undefined behaviour, the call with
  such pointers still returns the failure code; no choice of pointers and world makes it
  undefined.
\<close>

theorem stub_defined_for_every_pointer:
  "load_byte NULL w = Inl Undefined_Behaviour \<and>
   load_byte (Ptr a) world_empty = Inl Undefined_Behaviour \<and>
   mbedtls_internal_aes_decrypt e NULL NULL NULL w = Inr (e, w) \<and>
   mbedtls_internal_aes_decrypt e (Ptr a) (Ptr b) (Ptr c) world_empty = Inr (e, world_empty) \<and>
   mbedtls_internal_aes_decrypt e ctx input output w \<noteq> Inl Undefined_Behaviour"
  by (simp add: load_byte_def world_empty_def stub_run)

text \<open>
  C10. Every call completes: the model of the body is a composition of four total,
  non-recursive steps, and it yields a return value and a final world for every input.
\<close>

theorem stub_terminates:
  "\<exists>r w'. mbedtls_internal_aes_decrypt e ctx input output w = Inr (r, w')"
  by (simp add: stub_run)

section \<open>Properties of the reference backend\<close>

text \<open>
  C6. For every valid context, of any of the three key lengths, and every block, the
  reference decrypt transform applied to the reference encrypt transform of the block,
  under the same context, gives the block back, and so does encrypt applied to decrypt:
  the two transforms are inverse bijections on blocks. Every context that the key
  expansion produces from a key is valid, so this holds for it; and the key expansion
  produces a context for every key of 4, 6 or 8 words (128, 192 or 256 bits).
\<close>

theorem reference_decrypt_inverts_encrypt:
  "(valid_context ctx \<longrightarrow>
      reference_transform Decrypt ctx (reference_transform Encrypt ctx input) = input \<and>
      reference_transform Encrypt ctx (reference_transform Decrypt ctx input) = input) \<and>
   (key_expansion key = Some kctx \<longrightarrow>
      valid_context kctx \<and>
      reference_transform Decrypt kctx (reference_transform Encrypt kctx input) = input) \<and>
   (length key \<in> {4, 6, 8} \<longrightarrow> (\<exists>c. key_expansion key = Some c))"
  using key_expansion_supported [of key]
  by (simp add: inv_cipher_cipher cipher_inv_cipher key_expansion_valid)

theorem reference_decrypt_inverts_encrypt_witness:
  "valid_context zero_context_192 \<and>
   reference_transform Decrypt zero_context_192
     (reference_transform Encrypt zero_context_192 fips_plaintext) = fips_plaintext \<and>
   valid_context zero_context_256 \<and>
   reference_transform Decrypt zero_context_256
     (reference_transform Encrypt zero_context_256 fips_ciphertext) = fips_ciphertext \<and>
   length fips_key \<in> {4, 6, 8} \<and>
   key_expansion fips_key = Some fips_context \<and>
   valid_context fips_context \<and>
   reference_transform Decrypt fips_context
     (reference_transform Encrypt fips_context fips_plaintext) = fips_plaintext"
proof -
  have len: "length fips_key \<in> {4, 6, 8}"
    by (simp add: fips_key_def)
  have v192: "valid_context zero_context_192"
    by (simp add: valid_context_def zero_context_192_def)
  have v256: "valid_context zero_context_256"
    by (simp add: valid_context_def zero_context_256_def)
  note a = reference_decrypt_inverts_encrypt
    [of zero_context_192 fips_plaintext fips_key fips_context]
  note b = reference_decrypt_inverts_encrypt
    [of zero_context_256 fips_ciphertext fips_key fips_context]
  from len v192 v256 fips_key_expansion a b show ?thesis
    by blast
qed

text \<open>
  C7. The key \<open>000102030405060708090a0b0c0d0e0f\<close> expands to a context under which the
  reference encrypt transform maps the block \<open>00112233445566778899aabbccddeeff\<close> to
  \<open>69c4e0d86a7b0430d8cdb78070b4c55a\<close>, and the reference decrypt transform maps that
  ciphertext back to the plaintext.
\<close>

theorem fips_197_test_vector:
  "key_expansion fips_key = Some fips_context \<and>
   reference_transform Encrypt fips_context fips_plaintext = fips_ciphertext \<and>
   reference_transform Decrypt fips_context fips_ciphertext = fips_plaintext"
proof -
  have enc: "cipher 10 fips_schedule fips_plaintext = fips_ciphertext"
    by (simp add: cipher_def cipher_round_def round_key_def fips_schedule_def
        fips_plaintext_def fips_ciphertext_def upt_1_numeral gf_mul_consts xtime_def
        sbox_def sbox_table_def)
  have dec: "inv_cipher 10 fips_schedule fips_ciphertext = fips_plaintext"
    by (simp add: inv_cipher_def inv_cipher_round_def round_key_def fips_schedule_def
        fips_plaintext_def fips_ciphertext_def upt_1_numeral gf_mul_consts xtime_def
        inv_sbox_def inv_sbox_table_def)
  from enc dec fips_key_expansion show ?thesis
    by (simp add: fips_context_def)
qed

end
